theory Spec2Isabelle
  imports Main
begin

section \<open>Data model\<close>

text \<open>
  JavaScript strings are modelled as \<^typ>\<open>string\<close>; a character outside ASCII is written
  as its UTF-8 bytes. The letters of the Serbian user-facing texts:
\<close>

definition s_caron :: string where
  "s_caron = [CHR 0xC5, CHR 0xA1]"

definition z_caron :: string where
  "z_caron = [CHR 0xC5, CHR 0xBE]"

definition c_caron :: string where
  "c_caron = [CHR 0xC4, CHR 0x8D]"

definition c_acute :: string where
  "c_acute = [CHR 0xC4, CHR 0x87]"

text \<open>
  Modelled from the spec: the declaration of the type \<open>Task\<close> (imported from
  \<open>@/types/task\<close>) is not among the sources; the fields are those of the spec's data
  model. \<open>status\<close> and \<open>priority\<close> are string unions in TypeScript, so at run time they are
  strings, and the model keeps them as strings: a value outside the union is representable.
  An absent \<open>description\<close> or \<open>due_date\<close> is \<open>null\<close>, here \<^const>\<open>None\<close>.
\<close>

record Task =
  id' :: string
  title :: string
  description :: "string option"
  status :: string
  priority :: string
  due_date :: "string option"
  created_at :: string
  user_id :: string

text \<open>A JSON value of a command payload: \<open>null\<close> or a string.\<close>

datatype jsval = Null | Str string

text \<open>
  A call of the store's query builder, as data: the table named in \<open>from\<close>, the operation with
  its argument, the \<open>eq\<close> filters in call order, the \<open>order\<close> clause (column, ascending)
  and whether \<open>.select().single()\<close> asks for the written record back.
\<close>

datatype operation =
    Select string
  | Insert "(string \<times> jsval) list"
  | Update "(string \<times> jsval) list"
  | Delete

record query =
  from_table :: string
  operation :: operation
  eq :: "(string \<times> string) list"
  order :: "(string \<times> bool) option"
  single :: bool

text \<open>A remote call: a query on the store, or \<open>supabase.auth.getUser()\<close>.\<close>

datatype call = Query query | GetUser

text \<open>The argument of \<open>toast\<close>; \<open>destructive\<close> is \<open>variant: "destructive"\<close>.\<close>

record toast =
  destructive :: bool
  toast_title :: string
  toast_description :: string

definition success_toast :: "string \<Rightarrow> toast" where
  "success_toast d =
     \<lparr>destructive = False, toast_title = ''Uspe'' @ s_caron @ ''no!'', toast_description = d\<rparr>"

definition error_toast :: "string \<Rightarrow> toast" where
  "error_toast d =
     \<lparr>destructive = True, toast_title = ''Gre'' @ s_caron @ ''ka'', toast_description = d\<rparr>"

section \<open>TaskList\<close>

text \<open>The four \<open>useState\<close> cells of the component.\<close>

record list_state =
  tasks :: "Task list"
  loading :: bool
  showForm :: bool
  editingTask :: "Task option"

text \<open>
  Every handler and continuation of the component is a closure of the render that created
  it: \<open>tasks\<close> and \<open>editingTask\<close> in its body are the values that render had, while the
  setters write the state that is current when the store answers. The handlers below take
  both: \<open>rendered\<close>, the state of the render that created the closure, and \<open>st\<close>, the
  state at the time of the answer. The two differ when another handler has written the state
  between the press and the answer: nothing disables the buttons while a call is in flight.
\<close>

text \<open>What one run of a handler did: the calls it issued and the toasts it showed, in order.\<close>

record 's outcome =
  state :: 's
  calls :: "call list"
  toasts :: "toast list"

text \<open>
  The answer of the store to a query without \<open>single\<close>: the promise rejects, or it resolves
  to \<open>{ data, error }\<close> with \<open>error\<close> set, or with \<open>error\<close> null and \<open>data\<close> (possibly null).
\<close>

datatype 'a response = Rejected | Error string | Data "'a option"

definition initial_state :: list_state where
  "initial_state = \<lparr>tasks = [], loading = True, showForm = False, editingTask = None\<rparr>"

subsection \<open>fetchTasks\<close>

definition fetchTasks_query :: query where
  "fetchTasks_query =
     \<lparr>from_table = ''tasks'', operation = Select ''*'', eq = [],
      order = Some (''created_at'', False), single = False\<rparr>"

definition fetchTasks :: "Task list response \<Rightarrow> list_state \<Rightarrow> list_state outcome" where
  "fetchTasks r st =
     (case r of
        Data d \<Rightarrow>
          \<lparr>state = st\<lparr>tasks := (case d of Some ts \<Rightarrow> ts | None \<Rightarrow> []), loading := False\<rparr>,
           calls = [Query fetchTasks_query], toasts = []\<rparr>
      | _ \<Rightarrow>
          \<lparr>state = st\<lparr>loading := False\<rparr>,
           calls = [Query fetchTasks_query],
           toasts = [error_toast (''Nije mogu'' @ c_acute @ ''e u'' @ c_caron @ ''itati zadatke'')]\<rparr>)"

subsection \<open>handleDeleteTask\<close>



subsection \<open>handleStatusChange\<close>



subsection \<open>Display helpers\<close>

definition getStatusColor :: "string \<Rightarrow> string" where
  "getStatusColor s =
     (if s = ''completed'' then ''bg-green-100 text-green-800''
      else if s = ''in_progress'' then ''bg-yellow-100 text-yellow-800''
      else ''bg-gray-100 text-gray-800'')"

definition getPriorityColor :: "string \<Rightarrow> string" where
  "getPriorityColor p =
     (if p = ''high'' then ''bg-red-100 text-red-800''
      else if p = ''medium'' then ''bg-orange-100 text-orange-800''
      else ''bg-blue-100 text-blue-800'')"

definition getStatusText :: "string \<Rightarrow> string" where
  "getStatusText s =
     (if s = ''completed'' then ''Zavr'' @ s_caron @ ''eno''
      else if s = ''in_progress'' then ''U toku''
      else ''Na '' @ c_caron @ ''ekanju'')"

definition getPriorityText :: "string \<Rightarrow> string" where
  "getPriorityText p =
     (if p = ''high'' then ''Visok''
      else if p = ''medium'' then ''Srednji''
      else ''Nizak'')"

subsection \<open>The continuations handed to the form\<close>

text \<open>
  \<open>onSave\<close> and \<open>onCancel\<close> are created anew by each render that shows the form; a
  \<open>handleSubmit\<close> in flight keeps the \<open>onSave\<close> of the render it was started from.
\<close>

definition onSave :: "Task \<Rightarrow> list_state \<Rightarrow> list_state \<Rightarrow> list_state" where
  "onSave task rendered st =
     (case editingTask rendered of
        Some e \<Rightarrow>
          st\<lparr>tasks := map (\<lambda>t. if id' t = id' task then task else t) (tasks rendered),
             showForm := False, editingTask := None\<rparr>
      | None \<Rightarrow>
          st\<lparr>tasks := task # tasks rendered, showForm := False, editingTask := None\<rparr>)"

definition onCancel :: "list_state \<Rightarrow> list_state" where
  "onCancel st = st\<lparr>showForm := False, editingTask := None\<rparr>"


subsection \<open>The status buttons of a card\<close>

text \<open>
  The targets of the \<open>handleStatusChange\<close> buttons rendered for a task, in document order:
  inside \<open>status !== 'completed'\<close> the button to \<open>in_progress\<close> (only when
  \<open>status === 'pending'\<close>) and the button to \<open>completed\<close>; then, when
  \<open>status === 'completed'\<close>, the button to \<open>pending\<close>.
\<close>

definition statusButtons :: "Task \<Rightarrow> string list" where
  "statusButtons task =
     (if status task \<noteq> ''completed''
      then (if status task = ''pending'' then [''in_progress''] else []) @ [''completed'']
      else [])
     @ (if status task = ''completed'' then [''pending''] else [])"

text \<open>The list view: one card per task, each with its buttons' calls.\<close>

definition renderedButtons :: "list_state \<Rightarrow> (string \<times> string) list list" where
  "renderedButtons st = map (\<lambda>task. map (\<lambda>s. (id' task, s)) (statusButtons task)) (tasks st)"

section \<open>TaskForm\<close>

text \<open>
  The \<open>useState\<close> cells of the form: \<open>title\<close>, \<open>description\<close>, \<open>priority\<close>, \<open>dueDate\<close>
  and \<open>loading\<close> (prefixed where the name is a field of \<^typ>\<open>Task\<close> or of the list).
\<close>

record form_state =
  form_title :: string
  form_description :: string
  form_priority :: string
  dueDate :: string
  form_loading :: bool

text \<open>A run of \<open>handleSubmit\<close> also says whether it called \<open>onSave\<close>, and with which record.\<close>

record 's form_outcome = "'s outcome" +
  saved :: "Task option"

text \<open>
  The answer of the store to a query ending in \<open>.select().single()\<close>: the promise rejects,
  or \<open>error\<close> is set, or \<open>data\<close> is the one record written.
\<close>

datatype single_response = SRejected | SError string | SData Task

subsection \<open>The payload\<close>

text \<open>
  The object literal \<open>taskData\<close>, its properties in source order. \<open>toISOString\<close> stands for
  \<open>new Date(s).toISOString()\<close>; it is \<^const>\<open>None\<close> where that throws a \<open>RangeError\<close> (an
  invalid date), and then no payload is built. The conversion of the run time is
  \<open>new_Date_toISOString\<close> below. \<open>x || null\<close> is \<open>null\<close> exactly for the empty string.
\<close>

definition taskData ::
  "(string \<Rightarrow> string option) \<Rightarrow> form_state \<Rightarrow> (string \<times> jsval) list option" where
  "taskData toISOString f =
     (let payload = (\<lambda>due.
            [(''title'', Str (form_title f)),
             (''description'', if form_description f = [] then Null else Str (form_description f)),
             (''priority'', Str (form_priority f)),
             (''due_date'', due)])
      in if dueDate f = [] then Some (payload Null)
         else (case toISOString (dueDate f) of
                 None \<Rightarrow> None
               | Some ts \<Rightarrow> Some (payload (Str ts))))"

subsection \<open>The run time's date conversion\<close>

text \<open>
  The value of a date input is empty or a date \<open>YYYY-MM-DD\<close>. For the date-only form of the
  ECMAScript date-time string format (a four-digit year, a month \<open>01\<close> to \<open>12\<close> and a day
  of that month in the proleptic Gregorian calendar) \<open>new Date(s)\<close> is midnight UTC of that
  day, and \<open>toISOString()\<close> prints it as \<open>YYYY-MM-DDT00:00:00.000Z\<close>. What the run time
  makes of any other string (other forms of the format, formats of the implementation's
  own, or a \<open>RangeError\<close>) is the parameter \<open>other\<close>.
\<close>

definition digit :: "char \<Rightarrow> nat option" where
  "digit c =
     (if (48::nat) \<le> of_char c \<and> of_char c \<le> (57::nat) then Some (of_char c - 48) else None)"

fun decimal :: "string \<Rightarrow> nat option" where
  "decimal [] = None"
| "decimal [c] = digit c"
| "decimal (c # cs) =
     (case (digit c, decimal cs) of
        (Some x, Some n) \<Rightarrow> Some (x * 10 ^ length cs + n)
      | _ \<Rightarrow> None)"

definition isLeapYear :: "nat \<Rightarrow> bool" where
  "isLeapYear y = (y mod 4 = 0 \<and> (y mod 100 \<noteq> 0 \<or> y mod 400 = 0))"

definition daysInMonth :: "nat \<Rightarrow> nat \<Rightarrow> nat" where
  "daysInMonth y m =
     (if m = 2 then (if isLeapYear y then 29 else 28)
      else if m = 4 \<or> m = 6 \<or> m = 9 \<or> m = 11 then 30
      else 31)"

definition isDateOnly :: "string \<Rightarrow> bool" where
  "isDateOnly s =
     (length s = 10 \<and> s ! 4 = CHR ''-'' \<and> s ! 7 = CHR ''-'' \<and>
      (case (decimal (take 4 s), decimal (take 2 (drop 5 s)), decimal (drop 8 s)) of
         (Some y, Some m, Some d) \<Rightarrow> 1 \<le> m \<and> m \<le> 12 \<and> 1 \<le> d \<and> d \<le> daysInMonth y m
       | _ \<Rightarrow> False))"

definition new_Date_toISOString :: "(string \<Rightarrow> string option) \<Rightarrow> string \<Rightarrow> string option" where
  "new_Date_toISOString other s =
     (if isDateOnly s then Some (s @ ''T00:00:00.000Z'') else other s)"

subsection \<open>The commands\<close>

definition update_query :: "(string \<times> jsval) list \<Rightarrow> string \<Rightarrow> query" where
  "update_query d i =
     \<lparr>from_table = ''tasks'', operation = Update d, eq = [(''id'', i)], order = None,
      single = True\<rparr>"

definition insert_query :: "(string \<times> jsval) list \<Rightarrow> query" where
  "insert_query d =
     \<lparr>from_table = ''tasks'', operation = Insert d, eq = [], order = None, single = True\<rparr>"

subsection \<open>handleSubmit\<close>

text \<open>
  \<open>auth\<close> is the answer of \<open>supabase.auth.getUser()\<close> (the user's id, when there is a
  user; the handler reads \<open>data.user\<close> only, which is null when \<open>error\<close> is set) and
  \<open>store\<close> the store's answer to a query. Every \<open>throw\<close> and every rejected promise inside
  \<open>try\<close> ends in the \<open>catch\<close> block; \<open>finally\<close> clears \<open>loading\<close>.
\<close>

definition submit_failed :: "Task option \<Rightarrow> form_state \<Rightarrow> call list \<Rightarrow> form_state form_outcome" where
  "submit_failed task f cs =
     \<lparr>state = f\<lparr>form_loading := False\<rparr>, calls = cs,
      toasts = [error_toast
        (if task \<noteq> None then ''Nije mogu'' @ c_acute @ ''e a'' @ z_caron @ ''urirati zadatak''
         else ''Nije mogu'' @ c_acute @ ''e kreirati zadatak'')],
      saved = None\<rparr>"

definition submit_result ::
  "Task option \<Rightarrow> form_state \<Rightarrow> call list \<Rightarrow> single_response \<Rightarrow> form_state form_outcome" where
  "submit_result task f cs result =
     (case result of
        SData t \<Rightarrow>
          \<lparr>state = f\<lparr>form_loading := False\<rparr>, calls = cs,
           toasts = [success_toast
             (if task \<noteq> None then ''Zadatak je a'' @ z_caron @ ''uriran''
              else ''Zadatak je kreiran'')],
           saved = Some t\<rparr>
      | _ \<Rightarrow> submit_failed task f cs)"

definition handleSubmit ::
  "(string \<Rightarrow> string option) \<Rightarrow> string response \<Rightarrow> (query \<Rightarrow> single_response) \<Rightarrow>
   Task option \<Rightarrow> form_state \<Rightarrow> form_state form_outcome" where
  "handleSubmit toISOString auth store task f =
     (case taskData toISOString f of
        None \<Rightarrow> submit_failed task f []
      | Some d \<Rightarrow>
          (case task of
             Some t \<Rightarrow>
               submit_result task f [Query (update_query d (id' t))]
                 (store (update_query d (id' t)))
           | None \<Rightarrow>
               (case auth of
                  Data (Some uid) \<Rightarrow>
                    submit_result task f
                      [GetUser, Query (insert_query (d @ [(''user_id'', Str uid)]))]
                      (store (insert_query (d @ [(''user_id'', Str uid)])))
                | _ \<Rightarrow> submit_failed task f [GetUser])))"

subsection \<open>The form around the handler\<close>

text \<open>
  \<open>handleSubmit\<close> is the \<open>onSubmit\<close> handler of the form, and two attributes of the form
  decide whether the browser dispatches the submit event at all. The submit button is
  \<open>disabled={loading}\<close>: while a submission is in flight the button cannot be pressed, and
  a form whose submit button is disabled is not submitted from the keyboard either. The
  title input is \<open>required\<close>: constraint validation stops the submission while its value
  is the empty string; a value of white space only is not empty and passes. Both gates are
  the browser's; the handler has none.
\<close>

definition submitForm ::
  "(string \<Rightarrow> string option) \<Rightarrow> string response \<Rightarrow> (query \<Rightarrow> single_response) \<Rightarrow>
   Task option \<Rightarrow> form_state \<Rightarrow> form_state form_outcome" where
  "submitForm toISOString auth store task f =
     (if form_loading f \<or> form_title f = []
      then \<lparr>state = f, calls = [], toasts = [], saved = None\<rparr>
      else handleSubmit toISOString auth store task f)"

text \<open>
  The list renders the form with \<open>task={editingTask}\<close> and its own \<open>onSave\<close>: a submission
  started from the render \<open>rendered\<close> acts on the list's state, \<open>st\<close> at the time of the
  answer, through that render's continuation only.
\<close>

definition submit ::
  "(string \<Rightarrow> string option) \<Rightarrow> string response \<Rightarrow> (query \<Rightarrow> single_response) \<Rightarrow>
   form_state \<Rightarrow> list_state \<Rightarrow> list_state \<Rightarrow> (list_state \<times> form_state) outcome" where
  "submit toISOString auth store f rendered st =
     (let r = submitForm toISOString auth store (editingTask rendered) f
      in \<lparr>state = ((case saved r of Some t \<Rightarrow> onSave t rendered st | None \<Rightarrow> st), state r),
          calls = calls r, toasts = toasts r\<rparr>)"

section \<open>The words of the specification\<close>

text \<open>
  The specification speaks of a title "after trim": \<open>String.prototype.trim\<close>, here on the
  ASCII white space and line terminators (tab, line feed, vertical tab, form feed, carriage
  return, space).
\<close>

definition isWhiteSpace :: "char \<Rightarrow> bool" where
  "isWhiteSpace c = (c \<in> set [CHR 0x09, CHR 0x0A, CHR 0x0B, CHR 0x0C, CHR 0x0D, CHR '' ''])"

definition spec_trim :: "string \<Rightarrow> string" where
  "spec_trim s = rev (dropWhile isWhiteSpace (rev (dropWhile isWhiteSpace s)))"

text \<open>
  The specification's read is \<open>select all where user_id = current\<close>: a query restricted to a
  user carries that filter.
\<close>

definition spec_restricted_to_user :: "string \<Rightarrow> query \<Rightarrow> bool" where
  "spec_restricted_to_user uid q = ((''user_id'', uid) \<in> set (eq q))"

text \<open>Whether a call is an insert or an update command.\<close>

fun is_write :: "call \<Rightarrow> bool" where
  "is_write (Query q) = (case operation q of Insert d \<Rightarrow> True | Update d \<Rightarrow> True | _ \<Rightarrow> False)"
| "is_write GetUser = False"

section \<open>Example data\<close>

definition task1 :: Task where
  "task1 = \<lparr>id' = ''t1'', title = ''Buy milk'', description = None, status = ''pending'',
            priority = ''low'', due_date = None, created_at = ''2024-01-02T10:00:00Z'',
            user_id = ''u1''\<rparr>"

definition task2 :: Task where
  "task2 = \<lparr>id' = ''t2'', title = ''Pay rent'', description = Some ''before the 5th'',
            status = ''in_progress'', priority = ''high'',
            due_date = Some ''2024-02-05T00:00:00.000Z'',
            created_at = ''2024-01-01T09:00:00Z'', user_id = ''u1''\<rparr>"


definition listing :: list_state where
  "listing = \<lparr>tasks = [task1, task2], loading = False, showForm = False, editingTask = None\<rparr>"


definition creating :: list_state where
  "creating = listing\<lparr>showForm := True\<rparr>"

text \<open>A form whose title is two spaces, and one whose title has a space on each side.\<close>

definition blank_form :: form_state where
  "blank_form = \<lparr>form_title = ''  '', form_description = [], form_priority = ''medium'',
                 dueDate = [], form_loading = False\<rparr>"

definition padded_form :: form_state where
  "padded_form = \<lparr>form_title = '' a '', form_description = ''note'', form_priority = ''high'',
                  dueDate = ''2024-03-01'', form_loading = False\<rparr>"



definition failing_store :: "query \<Rightarrow> single_response" where
  "failing_store q = SError ''permission denied''"

section \<open>Auxiliary facts\<close>

subsection \<open>Lists with a key\<close>




subsection \<open>Projections of the handlers\<close>





lemma date_examples:
  "isDateOnly ''2024-03-01''" "isDateOnly ''2024-02-29''" "\<not> isDateOnly ''2023-02-29''"
  "\<not> isDateOnly ''2024-13-01''" "\<not> isDateOnly ''2024-3-1''" "\<not> isDateOnly ''10000-01-01''"
  by (simp_all add: isDateOnly_def digit_def daysInMonth_def isLeapYear_def)

lemma state_submit_failed: "state (submit_failed task f cs) = f\<lparr>form_loading := False\<rparr>"
  by (simp add: submit_failed_def)

lemma state_submit_result: "state (submit_result task f cs r) = f\<lparr>form_loading := False\<rparr>"
  by (cases r) (simp_all add: submit_result_def submit_failed_def)

lemma calls_submit_result: "calls (submit_result task f cs r) = cs"
  by (cases r) (simp_all add: submit_result_def submit_failed_def)

lemma state_handleSubmit:
  "state (handleSubmit toISOString auth store task f) = f\<lparr>form_loading := False\<rparr>"
  by (simp add: handleSubmit_def state_submit_failed state_submit_result
      split: option.split response.split)

lemma calls_handleSubmit_update:
  "taskData toISOString f = Some d \<Longrightarrow>
     calls (handleSubmit toISOString auth store (Some e) f) = [Query (update_query d (id' e))]"
  by (simp add: handleSubmit_def calls_submit_result)

lemma calls_handleSubmit_insert:
  "taskData toISOString f = Some d \<Longrightarrow>
     calls (handleSubmit toISOString (Data (Some uid)) store None f) =
       [GetUser, Query (insert_query (d @ [(''user_id'', Str uid)]))]"
  by (simp add: handleSubmit_def calls_submit_result)


lemma saved_submit_failed: "saved (submit_failed task f cs) = None"
  by (simp add: submit_failed_def)

lemma toasts_submit_failed:
  "toasts (submit_failed task f cs) =
     [error_toast
        (if task \<noteq> None then ''Nije mogu'' @ c_acute @ ''e a'' @ z_caron @ ''urirati zadatak''
         else ''Nije mogu'' @ c_acute @ ''e kreirati zadatak'')]"
  by (simp add: submit_failed_def)

lemma calls_submit_failed: "calls (submit_failed task f cs) = cs"
  by (simp add: submit_failed_def)

lemma handleSubmit_no_user:
  assumes "\<forall>uid. auth \<noteq> Data (Some uid)"
  shows "handleSubmit toISOString auth store None f =
           submit_failed None f (if taskData toISOString f = None then [] else [GetUser])"
proof (cases "taskData toISOString f")
  case None
  then show ?thesis by (simp add: handleSubmit_def)
next
  case (Some d)
  show ?thesis
  proof (cases auth)
    case (Data u)
    with assms have "u = None" by (cases u) simp_all
    with Data Some show ?thesis by (simp add: handleSubmit_def)
  qed (simp_all add: handleSubmit_def Some)
qed

lemma submit_result_refused:
  assumes "\<forall>q t. store q \<noteq> SData t"
  shows "submit_result task f cs (store q) = submit_failed task f cs"
  using assms by (cases "store q") (simp_all add: submit_result_def)

lemma handleSubmit_refused:
  assumes "\<forall>q t. store q \<noteq> SData t"
  shows "\<exists>cs. handleSubmit toISOString auth store task f = submit_failed task f cs"
proof -
  have "handleSubmit toISOString auth store task f \<in> range (submit_failed task f)"
    by (simp add: handleSubmit_def submit_result_refused [OF assms]
        split: option.split response.split)
  then show ?thesis by blast
qed

section \<open>The claims\<close>

subsection \<open>Submitting the form\<close>




text \<open>
  C2, as the specification states it, fails on the title: the payload carries the title as
  entered, with its surrounding white space.
\<close>

theorem taskData_title_not_trimmed:
  "spec_trim (form_title padded_form) = ''a''
   \<and> taskData (new_Date_toISOString Map.empty) padded_form =
       Some [(''title'', Str '' a ''), (''description'', Str ''note''),
             (''priority'', Str ''high''), (''due_date'', Str ''2024-03-01T00:00:00.000Z'')]"
  by (simp add: spec_trim_def isWhiteSpace_def padded_form_def taskData_def
      new_Date_toISOString_def date_examples)

text \<open>
  C2, amended: the payload has exactly the properties \<open>title\<close>, \<open>description\<close>,
  \<open>priority\<close>, \<open>due_date\<close>: the title as entered (not trimmed); the description, or null
  when it is empty; the selected priority; the due date null when the date field is empty
  and, when it holds a date \<open>YYYY-MM-DD\<close>, the timestamp of the start of that day in UTC,
  \<open>YYYY-MM-DDT00:00:00.000Z\<close>. In both cases the payload is built. That payload is the
  argument of the update, and with \<open>user_id\<close> appended the argument of the insert.
\<close>

theorem taskData_fields:
  "(dueDate f = [] \<or> isDateOnly (dueDate f) \<longrightarrow>
      taskData (new_Date_toISOString other) f =
        Some [(''title'', Str (form_title f)),
              (''description'',
                 if form_description f = [] then Null else Str (form_description f)),
              (''priority'', Str (form_priority f)),
              (''due_date'',
                 if dueDate f = [] then Null else Str (dueDate f @ ''T00:00:00.000Z''))])
   \<and> (taskData (new_Date_toISOString other) f = Some d \<longrightarrow>
        map fst d = [''title'', ''description'', ''priority'', ''due_date'']
        \<and> map_of d ''title'' = Some (Str (form_title f))
        \<and> map_of d ''description'' =
            Some (if form_description f = [] then Null else Str (form_description f))
        \<and> map_of d ''priority'' = Some (Str (form_priority f))
        \<and> map_of d ''due_date'' =
            (if dueDate f = [] then Some Null
             else if isDateOnly (dueDate f) then Some (Str (dueDate f @ ''T00:00:00.000Z''))
             else map_option Str (other (dueDate f)))
        \<and> calls (handleSubmit (new_Date_toISOString other) auth store (Some e) f) =
            [Query \<lparr>from_table = ''tasks'', operation = Update d, eq = [(''id'', id' e)],
                    order = None, single = True\<rparr>]
        \<and> calls (handleSubmit (new_Date_toISOString other) (Data (Some uid)) store None f) =
            [GetUser, Query \<lparr>from_table = ''tasks'',
                             operation = Insert (d @ [(''user_id'', Str uid)]), eq = [],
                             order = None, single = True\<rparr>])"
proof -
  let ?conv = "new_Date_toISOString other"
  have built: "taskData ?conv f =
        Some [(''title'', Str (form_title f)),
              (''description'',
                 if form_description f = [] then Null else Str (form_description f)),
              (''priority'', Str (form_priority f)),
              (''due_date'',
                 if dueDate f = [] then Null else Str (dueDate f @ ''T00:00:00.000Z''))]"
    if "dueDate f = [] \<or> isDateOnly (dueDate f)"
    using that by (auto simp add: taskData_def new_Date_toISOString_def)
  have payload: "map fst d = [''title'', ''description'', ''priority'', ''due_date'']
        \<and> map_of d ''title'' = Some (Str (form_title f))
        \<and> map_of d ''description'' =
            Some (if form_description f = [] then Null else Str (form_description f))
        \<and> map_of d ''priority'' = Some (Str (form_priority f))
        \<and> map_of d ''due_date'' =
            (if dueDate f = [] then Some Null
             else if isDateOnly (dueDate f) then Some (Str (dueDate f @ ''T00:00:00.000Z''))
             else map_option Str (other (dueDate f)))"
    if "taskData ?conv f = Some d"
    using that
    by (auto simp add: taskData_def new_Date_toISOString_def split: if_splits option.splits)
  have sent: "calls (handleSubmit ?conv auth store (Some e) f) =
            [Query \<lparr>from_table = ''tasks'', operation = Update d, eq = [(''id'', id' e)],
                    order = None, single = True\<rparr>]
        \<and> calls (handleSubmit ?conv (Data (Some uid)) store None f) =
            [GetUser, Query \<lparr>from_table = ''tasks'',
                             operation = Insert (d @ [(''user_id'', Str uid)]), eq = [],
                             order = None, single = True\<rparr>]"
    if "taskData ?conv f = Some d"
    using that
    by (simp add: calls_handleSubmit_update calls_handleSubmit_insert update_query_def
        insert_query_def)
  from built payload sent show ?thesis
    by (intro conjI impI) simp_all
qed

theorem taskData_fields_witness:
  "isDateOnly (dueDate padded_form) \<and> dueDate blank_form = []
   \<and> isDateOnly ''2024-02-29'' \<and> \<not> isDateOnly ''2023-02-29'' \<and> \<not> isDateOnly ''2024-13-01''
   \<and> taskData (new_Date_toISOString Map.empty) padded_form =
       Some [(''title'', Str '' a ''), (''description'', Str ''note''),
             (''priority'', Str ''high''), (''due_date'', Str ''2024-03-01T00:00:00.000Z'')]
   \<and> taskData (new_Date_toISOString Map.empty) blank_form =
       Some [(''title'', Str ''  ''), (''description'', Null),
             (''priority'', Str ''medium''), (''due_date'', Null)]
   \<and> calls (handleSubmit (new_Date_toISOString Map.empty) (Data None) failing_store
        (Some task1) padded_form) =
       [Query \<lparr>from_table = ''tasks'',
               operation = Update [(''title'', Str '' a ''), (''description'', Str ''note''),
                 (''priority'', Str ''high''), (''due_date'', Str ''2024-03-01T00:00:00.000Z'')],
               eq = [(''id'', ''t1'')], order = None, single = True\<rparr>]"
proof -
  let ?conv = "new_Date_toISOString Map.empty"
  let ?d = "[(''title'', Str '' a ''), (''description'', Str ''note''),
             (''priority'', Str ''high''), (''due_date'', Str ''2024-03-01T00:00:00.000Z'')]"
  have hyps: "isDateOnly (dueDate padded_form)" "dueDate blank_form = []"
    by (simp_all add: padded_form_def blank_form_def date_examples)
  from taskData_fields [of padded_form Map.empty ?d "Data None" failing_store task1 "''u1''"]
    hyps(1)
  have built: "taskData ?conv padded_form = Some ?d"
    by (simp add: padded_form_def)
  from taskData_fields [of padded_form Map.empty ?d "Data None" failing_store task1 "''u1''"]
    built
  have sent: "calls (handleSubmit ?conv (Data None) failing_store (Some task1) padded_form) =
       [Query \<lparr>from_table = ''tasks'', operation = Update ?d, eq = [(''id'', id' task1)],
               order = None, single = True\<rparr>]"
    by blast
  from taskData_fields [of blank_form Map.empty ?d "Data None" failing_store task1 "''u1''"]
    hyps(2)
  have empty: "taskData ?conv blank_form =
       Some [(''title'', Str ''  ''), (''description'', Null),
             (''priority'', Str ''medium''), (''due_date'', Null)]"
    by (simp add: blank_form_def)
  from hyps built sent empty date_examples show ?thesis
    by (simp add: task1_def)
qed

text \<open>
  C8: on the create path without an authenticated user no insert or update is issued,
  \<open>onSave\<close> is not called and the one notification is the error with the create-failure
  wording. Whenever the store returns no record, \<open>onSave\<close> is not called, the notification
  is the error of the mode, and the list is unchanged. In every case the form keeps its
  field values; only \<open>loading\<close> is cleared.
\<close>

theorem handleSubmit_failure:
  "((\<forall>uid. auth \<noteq> Data (Some uid)) \<longrightarrow>
      list_all (\<lambda>c. \<not> is_write c) (calls (handleSubmit toISOString auth store None f))
      \<and> saved (handleSubmit toISOString auth store None f) = None
      \<and> toasts (handleSubmit toISOString auth store None f) =
          [error_toast (''Nije mogu'' @ c_acute @ ''e kreirati zadatak'')])
   \<and> ((\<forall>q t. store q \<noteq> SData t) \<longrightarrow>
        saved (handleSubmit toISOString auth store task f) = None
        \<and> toasts (handleSubmit toISOString auth store task f) =
            [error_toast
               (if task \<noteq> None then ''Nije mogu'' @ c_acute @ ''e a'' @ z_caron @ ''urirati zadatak''
                else ''Nije mogu'' @ c_acute @ ''e kreirati zadatak'')]
        \<and> fst (state (submit toISOString auth store f rendered st)) = st)
   \<and> state (handleSubmit toISOString auth store task f) = f\<lparr>form_loading := False\<rparr>"
proof -
  have no_user: "list_all (\<lambda>c. \<not> is_write c) (calls (handleSubmit toISOString auth store None f))
      \<and> saved (handleSubmit toISOString auth store None f) = None
      \<and> toasts (handleSubmit toISOString auth store None f) =
          [error_toast (''Nije mogu'' @ c_acute @ ''e kreirati zadatak'')]"
    if "\<forall>uid. auth \<noteq> Data (Some uid)"
    unfolding handleSubmit_no_user [OF that]
    by (simp add: saved_submit_failed toasts_submit_failed calls_submit_failed)
  have remote: "saved (handleSubmit toISOString auth store task f) = None
        \<and> toasts (handleSubmit toISOString auth store task f) =
            [error_toast
               (if task \<noteq> None then ''Nije mogu'' @ c_acute @ ''e a'' @ z_caron @ ''urirati zadatak''
                else ''Nije mogu'' @ c_acute @ ''e kreirati zadatak'')]"
    if "\<forall>q t. store q \<noteq> SData t"
  proof -
    from handleSubmit_refused [OF that] obtain cs
      where "handleSubmit toISOString auth store task f = submit_failed task f cs"
      by blast
    then show ?thesis
      by (simp only: saved_submit_failed toasts_submit_failed)
  qed
  have list: "fst (state (submit toISOString auth store f rendered st)) = st"
    if "\<forall>q t. store q \<noteq> SData t"
  proof -
    from handleSubmit_refused [OF that] obtain cs
      where "handleSubmit toISOString auth store (editingTask rendered) f =
        submit_failed (editingTask rendered) f cs"
      by blast
    then show ?thesis
      by (simp add: submit_def submitForm_def Let_def saved_submit_failed)
  qed
  from no_user remote list state_handleSubmit [of toISOString auth store task f]
  show ?thesis
    by (intro conjI impI) simp_all
qed

theorem handleSubmit_failure_witness:
  "(\<forall>uid. Data None \<noteq> Data (Some uid)) \<and> (\<forall>q t. failing_store q \<noteq> SData t)
   \<and> calls (handleSubmit (new_Date_toISOString Map.empty) (Data None) failing_store None padded_form) = [GetUser]
   \<and> saved (handleSubmit (new_Date_toISOString Map.empty) (Data None) failing_store None padded_form) = None
   \<and> toasts (handleSubmit (new_Date_toISOString Map.empty) (Data None) failing_store None padded_form) =
       [\<lparr>destructive = True, toast_title = ''Gre'' @ s_caron @ ''ka'',
         toast_description = ''Nije mogu'' @ c_acute @ ''e kreirati zadatak''\<rparr>]
   \<and> saved (handleSubmit (new_Date_toISOString Map.empty) (Data (Some ''u1'')) failing_store (Some task1) padded_form) = None
   \<and> state (handleSubmit (new_Date_toISOString Map.empty) (Data (Some ''u1'')) failing_store (Some task1) padded_form)
       = padded_form
   \<and> fst (state (submit (new_Date_toISOString Map.empty) (Data (Some ''u1'')) failing_store padded_form creating creating))
       = creating"
proof -
  have hyps: "\<forall>uid. (Data None :: string response) \<noteq> Data (Some uid)"
    "\<forall>q t. failing_store q \<noteq> SData t"
    by (simp_all add: failing_store_def)
  have calls: "calls (handleSubmit (new_Date_toISOString Map.empty) (Data None) failing_store None padded_form) = [GetUser]"
    by (simp add: handleSubmit_def taskData_def padded_form_def new_Date_toISOString_def
        isDateOnly_def digit_def daysInMonth_def isLeapYear_def submit_failed_def)
  from handleSubmit_failure [of "Data None" "new_Date_toISOString Map.empty" failing_store
      padded_form None creating creating] hyps
  have no_user: "saved (handleSubmit (new_Date_toISOString Map.empty) (Data None) failing_store None padded_form) = None"
    "toasts (handleSubmit (new_Date_toISOString Map.empty) (Data None) failing_store None padded_form) =
       [error_toast (''Nije mogu'' @ c_acute @ ''e kreirati zadatak'')]"
    by blast+
  from handleSubmit_failure [of "Data (Some ''u1'')" "new_Date_toISOString Map.empty"
      failing_store padded_form "Some task1" creating creating] hyps(2)
  have remote: "saved (handleSubmit (new_Date_toISOString Map.empty) (Data (Some ''u1'')) failing_store (Some task1) padded_form) = None"
    "state (handleSubmit (new_Date_toISOString Map.empty) (Data (Some ''u1'')) failing_store (Some task1) padded_form)
       = padded_form\<lparr>form_loading := False\<rparr>"
    "fst (state (submit (new_Date_toISOString Map.empty) (Data (Some ''u1'')) failing_store padded_form creating creating))
       = creating"
    by blast+
  from hyps calls no_user remote show ?thesis
    by (simp add: error_toast_def padded_form_def)
qed

subsection \<open>Loading the list\<close>

text \<open>
  C3, as the specification states it, fails on the restriction: the query that
  \<open>fetchTasks\<close> issues has no filter at all, so none on \<open>user_id\<close>.
\<close>

theorem fetchTasks_no_user_filter:
  "calls (fetchTasks (Data (Some [task1, task2])) initial_state)
     = [Query \<lparr>from_table = ''tasks'', operation = Select ''*'', eq = [],
               order = Some (''created_at'', False), single = False\<rparr>]
   \<and> \<not> spec_restricted_to_user ''u1''
         \<lparr>from_table = ''tasks'', operation = Select ''*'', eq = [],
          order = Some (''created_at'', False), single = False\<rparr>"
  by (simp add: fetchTasks_def fetchTasks_query_def spec_restricted_to_user_def)

text \<open>
  C3, amended: \<open>fetchTasks\<close> issues one read of all columns of \<open>tasks\<close>, without a
  filter, ordered by \<open>created_at\<close> descending. On success the list becomes the result
  (the empty list when \<open>data\<close> is null); on failure, a rejected promise or an error
  answer, the list is the prior one; in both cases \<open>loading\<close> is false afterwards, and
  the edit mode is not touched.
\<close>

theorem fetchTasks_effect:
  "calls (fetchTasks r st) = [Query fetchTasks_query]
   \<and> fetchTasks_query =
       \<lparr>from_table = ''tasks'', operation = Select ''*'', eq = [],
        order = Some (''created_at'', False), single = False\<rparr>
   \<and> tasks (state (fetchTasks (Data (Some ts)) st)) = ts
   \<and> tasks (state (fetchTasks (Data None) st)) = []
   \<and> tasks (state (fetchTasks Rejected st)) = tasks st
   \<and> tasks (state (fetchTasks (Error e) st)) = tasks st
   \<and> \<not> loading (state (fetchTasks r st))
   \<and> showForm (state (fetchTasks r st)) = showForm st
   \<and> editingTask (state (fetchTasks r st)) = editingTask st"
  by (cases r) (simp_all add: fetchTasks_def fetchTasks_query_def)

subsection \<open>Status buttons and display helpers\<close>

text \<open>
  C4: the targets offered for a task depend on its status only: from \<open>pending\<close> they
  are \<open>in_progress\<close> and \<open>completed\<close>, from \<open>in_progress\<close> only \<open>completed\<close>, from
  \<open>completed\<close> only \<open>pending\<close>; the rendered list offers exactly these, per task.
\<close>

theorem statusButtons_by_status:
  "statusButtons (task\<lparr>status := ''pending''\<rparr>) = [''in_progress'', ''completed'']
   \<and> statusButtons (task\<lparr>status := ''in_progress''\<rparr>) = [''completed'']
   \<and> statusButtons (task\<lparr>status := ''completed''\<rparr>) = [''pending'']
   \<and> statusButtons task = statusButtons (other\<lparr>status := status task\<rparr>)
   \<and> renderedButtons st = map (\<lambda>t. map (Pair (id' t)) (statusButtons t)) (tasks st)"
  by (simp add: statusButtons_def renderedButtons_def)

text \<open>
  C9: the four display helpers are total functions of the string they are given. On every
  value other than the two that each of them tests for, the status helpers return the
  mapping of \<open>pending\<close> (the label for waiting, in UTF-8, and the gray colour classes) and
  the priority helpers the mapping of \<open>low\<close> (the label \<open>Nizak\<close> and the blue colour
  classes); these are the values at \<open>pending\<close> and \<open>low\<close> themselves, and the other
  recognised values have their own mappings.
\<close>

theorem display_helpers_default:
  "(s \<noteq> ''completed'' \<and> s \<noteq> ''in_progress'' \<longrightarrow>
      getStatusText s = ''Na '' @ [CHR 0xC4, CHR 0x8D] @ ''ekanju''
      \<and> getStatusColor s = ''bg-gray-100 text-gray-800'')
   \<and> (p \<noteq> ''high'' \<and> p \<noteq> ''medium'' \<longrightarrow>
        getPriorityText p = ''Nizak'' \<and> getPriorityColor p = ''bg-blue-100 text-blue-800'')
   \<and> getStatusText ''pending'' = ''Na '' @ [CHR 0xC4, CHR 0x8D] @ ''ekanju''
   \<and> getStatusColor ''pending'' = ''bg-gray-100 text-gray-800''
   \<and> getPriorityText ''low'' = ''Nizak''
   \<and> getPriorityColor ''low'' = ''bg-blue-100 text-blue-800''
   \<and> getStatusText ''completed'' = ''Zavr'' @ [CHR 0xC5, CHR 0xA1] @ ''eno''
   \<and> getStatusColor ''completed'' = ''bg-green-100 text-green-800''
   \<and> getStatusText ''in_progress'' = ''U toku''
   \<and> getStatusColor ''in_progress'' = ''bg-yellow-100 text-yellow-800''
   \<and> getPriorityText ''high'' = ''Visok''
   \<and> getPriorityColor ''high'' = ''bg-red-100 text-red-800''
   \<and> getPriorityText ''medium'' = ''Srednji''
   \<and> getPriorityColor ''medium'' = ''bg-orange-100 text-orange-800''"
  by (simp add: getStatusText_def getStatusColor_def getPriorityText_def getPriorityColor_def
      s_caron_def c_caron_def)

theorem display_helpers_default_witness:
  "''archived'' \<noteq> ''completed'' \<and> ''archived'' \<noteq> ''in_progress''
   \<and> ''urgent'' \<noteq> ''high'' \<and> ''urgent'' \<noteq> ''medium''
   \<and> getStatusText ''archived'' = ''Na '' @ [CHR 0xC4, CHR 0x8D] @ ''ekanju''
   \<and> getStatusColor ''archived'' = ''bg-gray-100 text-gray-800''
   \<and> getPriorityText ''urgent'' = ''Nizak''
   \<and> getPriorityColor ''urgent'' = ''bg-blue-100 text-blue-800''
   \<and> getStatusText [] = getStatusText ''pending''
   \<and> getStatusColor [] = getStatusColor ''pending''
   \<and> getPriorityText [] = getPriorityText ''low''
   \<and> getPriorityColor [] = getPriorityColor ''low''"
proof -
  have unknown: "''archived'' \<noteq> ''completed'' \<and> ''archived'' \<noteq> ''in_progress''"
    "''urgent'' \<noteq> ''high'' \<and> ''urgent'' \<noteq> ''medium''"
    "[] \<noteq> ''completed'' \<and> [] \<noteq> ''in_progress''" "[] \<noteq> ''high'' \<and> [] \<noteq> ''medium''"
    by simp_all
  from display_helpers_default [of "''archived''" "''urgent''"] unknown(1,2)
  have named: "getStatusText ''archived'' = ''Na '' @ [CHR 0xC4, CHR 0x8D] @ ''ekanju''"
    "getStatusColor ''archived'' = ''bg-gray-100 text-gray-800''"
    "getPriorityText ''urgent'' = ''Nizak''"
    "getPriorityColor ''urgent'' = ''bg-blue-100 text-blue-800''"
    by blast+
  from display_helpers_default [of "[]" "[]"] unknown(3,4)
  have empty: "getStatusText [] = getStatusText ''pending''"
    "getStatusColor [] = getStatusColor ''pending''"
    "getPriorityText [] = getPriorityText ''low''"
    "getPriorityColor [] = getPriorityColor ''low''"
    by presburger+
  from unknown(1,2) named empty show ?thesis
    by blast
qed

subsection \<open>Changing the list\<close>













end
